theory Spec2Isabelle
  imports Complex_Main "HOL-Library.Multiset"
begin

section \<open>Values exchanged with the libraries\<close>

text \<open>
  Both tools build Python dictionaries whose values are JSON-serialisable and read
  dictionaries decoded from JSON. A value is modelled by the datatype below. Python floats
  (the latency of a probe, JSON numbers with a fraction) are kept as opaque values of a
  type parameter \<open>'f\<close>: no float arithmetic is performed by the model. A dictionary is an
  association list in insertion order; the dictionary literals of the source have distinct
  keys, and a decoded JSON object is the dictionary the decoder built, so \<open>map_of\<close> is the
  lookup.
\<close>

datatype 'f json =
    JNull
  | JBool bool
  | JInt int
  | JFloat 'f
  | JStr string
  | JArr "'f json list"
  | JObj "(string \<times> 'f json) list"

type_synonym 'f pydict = "(string \<times> 'f json) list"

text \<open>
  An exception is a value. The source distinguishes \<open>requests.exceptions.RequestException\<close>
  from every other \<open>Exception\<close>; the payload is the text \<open>str(e)\<close>.
\<close>

datatype exn = RequestException string | OtherException string

fun str_exn :: "exn \<Rightarrow> string" where
  "str_exn (RequestException m) = m"
| "str_exn (OtherException m) = m"

text \<open>
  What \<open>requests.get\<close> hands back: the status code, the body text, the result of
  \<open>response.json()\<close> (which raises on a body that is not JSON) and
  \<open>response.elapsed.total_seconds()\<close>.
\<close>

record 'f response =
  status_code :: int
  resp_text :: string
  resp_json :: "exn + 'f json"
  elapsed_total_seconds :: 'f

text \<open>
  One probe's view of the world: the result of its single \<open>requests.get\<close> call (an
  exception or a response) and the wall-clock difference \<open>time.time() - start_time\<close> that
  the aggregation tool measures around the call.
\<close>

record 'f probe_io =
  get_result :: "exn + 'f response"
  wall_clock :: 'f

subsection \<open>Decimal text of an integer\<close>

definition digit_char :: "nat \<Rightarrow> char" where
  "digit_char d = char_of (48 + d)"

function str_nat :: "nat \<Rightarrow> string" where
  "str_nat n = (if n < 10 then [digit_char n] else str_nat (n div 10) @ [digit_char (n mod 10)])"
  by pat_completeness auto
termination
  by (relation "measure (\<lambda>n. n)") auto

declare str_nat.simps [simp del]

definition str_int :: "int \<Rightarrow> string" where
  "str_int i = (if i < 0 then CHR ''-'' # str_nat (nat (- i)) else str_nat (nat i))"

subsection \<open>Dictionary access\<close>

definition has_key :: "'f pydict \<Rightarrow> string \<Rightarrow> bool" where
  "has_key d k = (map_of d k \<noteq> None)"

fun type_name :: "'f json \<Rightarrow> string" where
  "type_name JNull = ''NoneType''"
| "type_name (JBool _) = ''bool''"
| "type_name (JInt _) = ''int''"
| "type_name (JFloat _) = ''float''"
| "type_name (JStr _) = ''str''"
| "type_name (JArr _) = ''list''"
| "type_name (JObj _) = ''dict''"

text \<open>
  \<open>data.get(key, default)\<close>: on a dictionary the stored value or the default; on any other
  decoded value an \<open>AttributeError\<close>.
\<close>

fun data_get :: "'f json \<Rightarrow> string \<Rightarrow> 'f json \<Rightarrow> exn + 'f json" where
  "data_get (JObj kvs) k dflt = Inr (case map_of kvs k of Some v \<Rightarrow> v | None \<Rightarrow> dflt)"
| "data_get v k dflt =
     Inl (OtherException ([CHR 0x27] @ type_name v @ [CHR 0x27] @ '' object has no attribute ''
            @ [CHR 0x27] @ ''get'' @ [CHR 0x27]))"

section \<open>The probe of the file-check tool (\<open>proxy_checker.check_proxy\<close>)\<close>

text \<open>The two \<open>except\<close> clauses, in the order of the source.\<close>

fun check_proxy_except :: "string \<Rightarrow> exn \<Rightarrow> 'f pydict" where
  "check_proxy_except proxy (RequestException m) =
     [(''proxy'', JStr proxy), (''status'', JStr ''failed''), (''error'', JStr m)]"
| "check_proxy_except proxy (OtherException m) =
     [(''proxy'', JStr proxy), (''status'', JStr ''failed''),
      (''error'', JStr (''Unexpected error: '' @ m))]"

definition check_proxy :: "string \<Rightarrow> 'f probe_io \<Rightarrow> 'f pydict" where
  "check_proxy proxy io =
     (case get_result io of
        Inl e \<Rightarrow> check_proxy_except proxy e
      | Inr response \<Rightarrow>
          if status_code response = 200 then
            (case resp_json response of
               Inl e \<Rightarrow> check_proxy_except proxy e
             | Inr data \<Rightarrow>
                 (case data_get data ''origin'' (JStr ''unknown'') of
                    Inl e \<Rightarrow> check_proxy_except proxy e
                  | Inr real_ip \<Rightarrow>
                      [(''proxy'', JStr proxy), (''status'', JStr ''working''),
                       (''response_time'', JFloat (elapsed_total_seconds response)),
                       (''real_ip'', real_ip)]))
          else
            [(''proxy'', JStr proxy), (''status'', JStr ''failed''),
             (''error'', JStr (''HTTP '' @ str_int (status_code response)))])"

section \<open>The probe of the aggregation tool (\<open>ProxyFinder.check_proxy\<close>)\<close>

text \<open>
  \<open>round2\<close> stands for Python's \<open>round(x, 2)\<close> on floats. The inner \<open>try\<close> with its bare
  \<open>except\<close> covers both \<open>response.json()\<close> and \<open>data.get\<close>; the outer handler covers the
  request itself.
\<close>

definition finder_check_proxy :: "('f \<Rightarrow> 'f) \<Rightarrow> string \<Rightarrow> 'f probe_io \<Rightarrow> 'f pydict" where
  "finder_check_proxy round2 proxy io =
     (case get_result io of
        Inl e \<Rightarrow>
          [(''proxy'', JStr proxy), (''status'', JStr ''failed''), (''error'', JStr (str_exn e))]
      | Inr response \<Rightarrow>
          let response_time = wall_clock io in
          if status_code response = 200 then
            (case (case resp_json response of
                     Inl e \<Rightarrow> Inl e
                   | Inr data \<Rightarrow> data_get data ''origin'' (JStr ''unknown'')) of
               Inr real_ip \<Rightarrow>
                 [(''proxy'', JStr proxy), (''status'', JStr ''working''),
                  (''response_time'', JFloat (round2 response_time)),
                  (''real_ip'', real_ip), (''protocol'', JStr ''http'')]
             | Inl _ \<Rightarrow>
                 [(''proxy'', JStr proxy), (''status'', JStr ''working''),
                  (''response_time'', JFloat (round2 response_time)),
                  (''protocol'', JStr ''http'')])
          else
            [(''proxy'', JStr proxy), (''status'', JStr ''failed''),
             (''error'', JStr (''HTTP '' @ str_int (status_code response)))])"

section \<open>Well-formed outcomes\<close>

text \<open>
  The shape every outcome record is expected to have: the status is one of the two
  literals, the latency is recorded exactly for a working outcome, the error text exactly
  for a failed one, and never both.
\<close>

definition outcome_wellformed :: "'f pydict \<Rightarrow> bool" where
  "outcome_wellformed out =
     ((map_of out ''status'' = Some (JStr ''working'') \<or> map_of out ''status'' = Some (JStr ''failed''))
      \<and> (has_key out ''response_time'' = (map_of out ''status'' = Some (JStr ''working'')))
      \<and> (has_key out ''error'' = (map_of out ''status'' = Some (JStr ''failed'')))
      \<and> \<not> (has_key out ''response_time'' \<and> has_key out ''error''))"

section \<open>Python strings and lists\<close>

text \<open>
  A Python string is a \<open>string\<close>; its characters are the code points below 256. The two
  marks that the tools print in front of a status line lie beyond that range and are
  written as their UTF-8 bytes.
\<close>

definition LF :: char where "LF = CHR 0x0A"
definition CR :: char where "CR = CHR 0x0D"

definition check_mark :: string where "check_mark = [CHR 0xE2, CHR 0x9C, CHR 0x93]"
definition cross_mark :: string where "cross_mark = [CHR 0xE2, CHR 0x9C, CHR 0x97]"

text \<open>\<open>str.isspace\<close> on one character (code points 9 to 13, 28 to 32, 133 and 160).\<close>

definition isspace :: "char \<Rightarrow> bool" where
  "isspace c = (let n = of_char c :: nat in
                  (9 \<le> n \<and> n \<le> 13) \<or> (28 \<le> n \<and> n \<le> 32) \<or> n = 133 \<or> n = 160)"

definition strip :: "string \<Rightarrow> string" where
  "strip s = rev (dropWhile isspace (rev (dropWhile isspace s)))"

definition startswith :: "string \<Rightarrow> string \<Rightarrow> bool" where
  "startswith s pre = (take (length pre) s = pre)"

text \<open>\<open>s.split('\n')\<close>: never empty, one more piece than there are separators.\<close>

fun split_nl :: "string \<Rightarrow> string list" where
  "split_nl [] = [[]]"
| "split_nl (c # cs) =
     (if c = LF then [] # split_nl cs
      else (case split_nl cs of l # ls \<Rightarrow> (c # l) # ls | [] \<Rightarrow> [[c]]))"

text \<open>\<open>s.rsplit('.', 1)[0]\<close>: the text before the last dot, or all of it without a dot.\<close>

definition rsplit_dot_head :: "string \<Rightarrow> string" where
  "rsplit_dot_head s =
     (if CHR ''.'' \<in> set s then rev (tl (dropWhile (\<lambda>c. c \<noteq> CHR ''.'') (rev s))) else s)"

text \<open>
  \<open>xs[:n]\<close>: the first \<open>n\<close> items, and for a negative \<open>n\<close> all but the last \<open>-n\<close>.
\<close>

definition slice_to :: "'a list \<Rightarrow> int \<Rightarrow> 'a list" where
  "slice_to xs n = (if 0 \<le> n then take (nat n) xs else take (length xs - nat (- n)) xs)"

text \<open>
  Reading a text file line by line: universal newlines turn \<open>\r\n\<close> and \<open>\r\<close> into
  \<open>\n\<close>, and every line keeps its terminator.
\<close>

fun translate_newlines :: "string \<Rightarrow> string" where
  "translate_newlines [] = []"
| "translate_newlines [c] = [if c = CR then LF else c]"
| "translate_newlines (c # d # cs) =
     (if c = CR then
        (if d = LF then LF # translate_newlines cs else LF # translate_newlines (d # cs))
      else c # translate_newlines (d # cs))"

fun lines_from :: "string \<Rightarrow> string \<Rightarrow> string list" where
  "lines_from cur [] = (if cur = [] then [] else [cur])"
| "lines_from cur (c # cs) =
     (if c = LF then (cur @ [c]) # lines_from [] cs else lines_from (cur @ [c]) cs)"

definition file_lines :: "string \<Rightarrow> string list" where
  "file_lines content = lines_from [] (translate_newlines content)"

text \<open>\<open>d[k]\<close> raises \<open>KeyError\<close> on a missing key; \<open>str\<close> of that error is the quoted key.\<close>

definition getitem :: "'f pydict \<Rightarrow> string \<Rightarrow> exn + 'f json" where
  "getitem d k =
     (case map_of d k of
        None \<Rightarrow> Inl (OtherException ([CHR 0x27] @ k @ [CHR 0x27]))
      | Some v \<Rightarrow> Inr v)"

text \<open>
  The library functions the tools call on floats and on JSON text are parameters of the
  model: \<open>round2\<close> is \<open>round(x, 2)\<close>, \<open>format_2f\<close> is \<open>format(x, '.2f')\<close> on a float,
  \<open>str_float\<close> is \<open>str(x)\<close> on a float, \<open>str_container\<close> is \<open>str(v)\<close> on a list or a
  dictionary, \<open>json_loads\<close> is \<open>json.loads\<close> and \<open>json_dumps\<close> is the text written by
  \<open>json.dump(v, f, indent=2)\<close>.
\<close>

record 'f pylib =
  round2 :: "'f \<Rightarrow> 'f"
  format_2f :: "'f \<Rightarrow> string"
  str_float :: "'f \<Rightarrow> string"
  str_container :: "'f json \<Rightarrow> string"
  json_loads :: "string \<Rightarrow> exn + 'f json"
  json_dumps :: "'f json \<Rightarrow> string"

definition py_str :: "'f pylib \<Rightarrow> 'f json \<Rightarrow> string" where
  "py_str lib v =
     (case v of
        JNull \<Rightarrow> ''None''
      | JBool b \<Rightarrow> (if b then ''True'' else ''False'')
      | JInt i \<Rightarrow> str_int i
      | JFloat x \<Rightarrow> str_float lib x
      | JStr s \<Rightarrow> s
      | JArr _ \<Rightarrow> str_container lib v
      | JObj _ \<Rightarrow> str_container lib v)"

text \<open>The format specification \<open>:.2f\<close> inside an f-string.\<close>

definition py_format_2f :: "'f pylib \<Rightarrow> 'f json \<Rightarrow> exn + string" where
  "py_format_2f lib v =
     (case v of
        JFloat x \<Rightarrow> Inr (format_2f lib x)
      | JInt i \<Rightarrow> Inr (str_int i @ ''.00'')
      | JBool b \<Rightarrow> Inr (if b then ''1.00'' else ''0.00'')
      | JStr _ \<Rightarrow>
          Inl (OtherException (''Unknown format code '' @ [CHR 0x27] @ ''f'' @ [CHR 0x27]
                 @ '' for object of type '' @ [CHR 0x27] @ ''str'' @ [CHR 0x27]))
      | _ \<Rightarrow>
          Inl (OtherException (''unsupported format string passed to '' @ type_name v
                 @ ''.__format__'')))"

section \<open>Files, standard output, and the order of completion\<close>

text \<open>
  The world of a run: the text files by path and the lines printed so far. A path either
  names a readable text file or nothing; other failures of \<open>open\<close> (a directory, a missing
  permission, bytes that do not decode) and failures of writing are not modelled.
\<close>

record world =
  files :: "string \<rightharpoonup> string"
  stdout :: "string list"

definition print :: "world \<Rightarrow> string \<Rightarrow> world" where
  "print w line = w\<lparr>stdout := stdout w @ [line]\<rparr>"

definition write_file :: "world \<Rightarrow> string \<Rightarrow> string \<Rightarrow> world" where
  "write_file w path content = w\<lparr>files := (files w)(path \<mapsto> content)\<rparr>"

datatype exit_status = Returned | SysExit int | Uncaught exn

text \<open>
  \<open>as_completed\<close> yields the submitted futures in the order in which they finish, which
  the timing of the network decides. The timing is the first argument: at each step the
  next choice, taken modulo the number of pending futures, names the one that finishes
  next (the first pending one once the choices are used up).
\<close>

function as_completed :: "nat list \<Rightarrow> 'a list \<Rightarrow> 'a list" where
  "as_completed choices [] = []"
| "as_completed choices (p # ps) =
     (let pending = p # ps;
          i = (case choices of [] \<Rightarrow> 0 | c # _ \<Rightarrow> c mod length pending)
      in pending ! i # as_completed (tl choices) (take i pending @ drop (Suc i) pending))"
  by pat_completeness auto
termination
proof (relation "measure (\<lambda>(choices, pending). length pending)")
  fix choices :: "nat list" and p :: 'a and ps :: "'a list" and pending i
  assume "pending = p # ps"
    and "i = (case choices of [] \<Rightarrow> 0 | c # _ \<Rightarrow> c mod length pending)"
  then have "i < length pending"
    by (cases choices) simp_all
  then show "((tl choices, take i pending @ drop (Suc i) pending), (choices, p # ps))
               \<in> measure (\<lambda>(choices, pending). length pending)"
    using \<open>pending = p # ps\<close> by simp
qed simp

text \<open>A loop whose body may raise: it stops at the first exception.\<close>

fun for_each :: "('a \<Rightarrow> 's \<Rightarrow> exn option \<times> 's) \<Rightarrow> 'a list \<Rightarrow> 's \<Rightarrow> exn option \<times> 's" where
  "for_each body [] s = (None, s)"
| "for_each body (x # xs) s =
     (case body x s of
        (Some e, s') \<Rightarrow> (Some e, s')
      | (None, s') \<Rightarrow> for_each body xs s')"

text \<open>The position of each submitted task, in submission order.\<close>

fun with_position :: "nat \<Rightarrow> 'a list \<Rightarrow> (nat \<times> 'a) list" where
  "with_position i [] = []"
| "with_position i (x # xs) = (i, x) # with_position (Suc i) xs"

section \<open>The file-check tool (\<open>proxy_checker.py\<close>)\<close>

text \<open>
  The candidates read from the input file: the stripped text of every line that is not
  blank and does not start with \<open>#\<close> (the test for \<open>#\<close> is on the unstripped line).
\<close>

definition read_proxies :: "string \<Rightarrow> string list" where
  "read_proxies content =
     map strip (filter (\<lambda>line. strip line \<noteq> [] \<and> \<not> startswith line ''#'') (file_lines content))"

text \<open>The two status lines printed in the loop over the completed probes.\<close>

definition checker_working_line :: "'f pylib \<Rightarrow> 'f pydict \<Rightarrow> exn + string" where
  "checker_working_line lib result =
     (case getitem result ''proxy'' of
        Inl e \<Rightarrow> Inl e
      | Inr proxy \<Rightarrow>
          (case getitem result ''response_time'' of
             Inl e \<Rightarrow> Inl e
           | Inr t \<Rightarrow>
               (case py_format_2f lib t of
                  Inl e \<Rightarrow> Inl e
                | Inr ts \<Rightarrow>
                    (case getitem result ''real_ip'' of
                       Inl e \<Rightarrow> Inl e
                     | Inr real_ip \<Rightarrow>
                         Inr (check_mark @ '' '' @ py_str lib proxy @ '' - '' @ ts
                              @ ''s - Real IP: '' @ py_str lib real_ip)))))"

definition checker_failed_line :: "'f pylib \<Rightarrow> 'f pydict \<Rightarrow> exn + string" where
  "checker_failed_line lib result =
     (case getitem result ''proxy'' of
        Inl e \<Rightarrow> Inl e
      | Inr proxy \<Rightarrow>
          (case getitem result ''error'' of
             Inl e \<Rightarrow> Inl e
           | Inr err \<Rightarrow> Inr (cross_mark @ '' '' @ py_str lib proxy @ '' - '' @ py_str lib err)))"

text \<open>
  The body of the loop: the state is the result list, the count of working outcomes and
  the world.
\<close>

definition checker_loop_body ::
  "'f pylib \<Rightarrow> 'f pydict \<Rightarrow> 'f pydict list \<times> int \<times> world
     \<Rightarrow> exn option \<times> 'f pydict list \<times> int \<times> world" where
  "checker_loop_body lib result st =
     (case st of (results, working_count, w) \<Rightarrow>
        let results = results @ [result] in
        (case getitem result ''status'' of
           Inl e \<Rightarrow> (Some e, results, working_count, w)
         | Inr status \<Rightarrow>
             if status = JStr ''working'' then
               (case checker_working_line lib result of
                  Inl e \<Rightarrow> (Some e, results, working_count + 1, w)
                | Inr line \<Rightarrow> (None, results, working_count + 1, print w line))
             else
               (case checker_failed_line lib result of
                  Inl e \<Rightarrow> (Some e, results, working_count, w)
                | Inr line \<Rightarrow> (None, results, working_count, print w line))))"

text \<open>
  The probes of one run, in the order in which they finish: \<open>net i proxy\<close> is what the
  probe submitted at position \<open>i\<close> for \<open>proxy\<close> meets on the network, \<open>done_order\<close> the
  order in which the probes finish.
\<close>

definition checker_outcomes ::
  "(nat \<Rightarrow> string \<Rightarrow> 'f probe_io) \<Rightarrow> nat list \<Rightarrow> string list \<Rightarrow> 'f pydict list" where
  "checker_outcomes net done_order proxies =
     as_completed done_order
       (map (\<lambda>(i, proxy). check_proxy proxy (net i proxy)) (with_position 0 proxies))"

text \<open>
  \<open>check_proxies_from_file\<close>. A missing file is reported and gives the empty list;
  \<open>ThreadPoolExecutor\<close> raises \<open>ValueError\<close> for a worker count that is not positive.
\<close>

definition check_proxies_from_file ::
  "'f pylib \<Rightarrow> (nat \<Rightarrow> string \<Rightarrow> 'f probe_io) \<Rightarrow> nat list \<Rightarrow> string \<Rightarrow> int \<Rightarrow> world
     \<Rightarrow> (exn + 'f pydict list) \<times> world" where
  "check_proxies_from_file lib net done_order filename max_workers w =
     (case files w filename of
        None \<Rightarrow>
          (Inr [], print w (''Error: File '' @ [CHR 0x27] @ filename @ [CHR 0x27] @ '' not found''))
      | Some content \<Rightarrow>
          let proxies = read_proxies content;
              w1 = print w (''Loaded '' @ str_int (int (length proxies)) @ '' proxies from ''
                            @ filename);
              w2 = print w1 (''Checking proxies with '' @ str_int max_workers
                             @ '' concurrent threads...'')
          in
          if max_workers \<le> 0 then
            (Inl (OtherException ''max_workers must be greater than 0''), w2)
          else
            (case for_each (checker_loop_body lib) (checker_outcomes net done_order proxies)
                    ([], 0, w2) of
               (Some e, results, working_count, w3) \<Rightarrow> (Inl e, w3)
             | (None, results, working_count, w3) \<Rightarrow>
                 (Inr results,
                  print w3 ([LF] @ ''Summary: '' @ str_int working_count @ ''/''
                            @ str_int (int (length proxies)) @ '' proxies are working''))))"

text \<open>
  \<open>main\<close> of the file-check tool, started with the argument vector \<open>argv\<close>. It returns
  how the process ends and the world it leaves.
\<close>

definition main ::
  "'f pylib \<Rightarrow> (nat \<Rightarrow> string \<Rightarrow> 'f probe_io) \<Rightarrow> nat list \<Rightarrow> string list \<Rightarrow> world
     \<Rightarrow> exit_status \<times> world" where
  "main lib net done_order argv w =
     (if length argv \<noteq> 2 then
        (SysExit 1,
         print (print w ''Usage: python3 proxy_checker.py <proxy_list_file>'')
           ''File should contain one proxy per line in format: ip:port'')
      else
        let filename = argv ! 1 in
        (case check_proxies_from_file lib net done_order filename 10 w of
           (Inl e, w1) \<Rightarrow> (Uncaught e, w1)
         | (Inr results, w1) \<Rightarrow>
             let output_file = rsplit_dot_head filename @ ''_results.json'';
                 w2 = write_file w1 output_file (json_dumps lib (JArr (map JObj results)));
                 w3 = print w2 ([LF] @ ''Results saved to '' @ output_file)
             in (Returned, w3)))"

section \<open>The aggregation tool (\<open>proxy_finder.py\<close>)\<close>

subsection \<open>Sources and their parsers\<close>

record source =
  name :: string
  url :: string
  parser :: "string \<Rightarrow> string list"

definition parse_free_proxy_list :: "string \<Rightarrow> string list" where
  "parse_free_proxy_list content = []"

text \<open>
  What \<open>for proxy in data\<close> runs over: the items of a list, the keys of a dictionary, the
  characters of a string; any other decoded value is not iterable.
\<close>

fun iter_json :: "'f json \<Rightarrow> 'f json list option" where
  "iter_json (JArr xs) = Some xs"
| "iter_json (JObj kvs) = Some (map (\<lambda>kv. JStr (fst kv)) kvs)"
| "iter_json (JStr s) = Some (map (\<lambda>c. JStr [c]) s)"
| "iter_json _ = None"

text \<open>
  One item of the comprehension, \<open>f"{proxy['ip']}:{proxy['port']}"\<close>: \<open>None\<close> when a
  subscript raises (a missing key, or an item that is not a dictionary).
\<close>

definition proxy_entry :: "'f pylib \<Rightarrow> 'f json \<Rightarrow> string option" where
  "proxy_entry lib proxy =
     (case proxy of
        JObj kvs \<Rightarrow>
          (case map_of kvs ''ip'' of
             None \<Rightarrow> None
           | Some ip \<Rightarrow>
               (case map_of kvs ''port'' of
                  None \<Rightarrow> None
                | Some port \<Rightarrow> Some (py_str lib ip @ '':'' @ py_str lib port)))
      | _ \<Rightarrow> None)"

definition parse_proxy_list_download :: "'f pylib \<Rightarrow> string \<Rightarrow> string list" where
  "parse_proxy_list_download lib content =
     (let fallback = map strip (filter (\<lambda>line. CHR '':'' \<in> set line) (split_nl content)) in
      case json_loads lib content of
        Inl _ \<Rightarrow> fallback
      | Inr data \<Rightarrow>
          (case iter_json data of
             None \<Rightarrow> fallback
           | Some items \<Rightarrow>
               (case those (map (proxy_entry lib) items) of
                  None \<Rightarrow> fallback
                | Some proxies \<Rightarrow> proxies)))"

definition parse_proxyscrape :: "string \<Rightarrow> string list" where
  "parse_proxyscrape content =
     map strip (filter (\<lambda>line. CHR '':'' \<in> set line \<and> strip line \<noteq> []) (split_nl content))"

definition sources :: "'f pylib \<Rightarrow> source list" where
  "sources lib =
     [\<lparr>name = ''free-proxy-list.net'',
       url = ''https://free-proxy-list.net/'',
       parser = parse_free_proxy_list\<rparr>,
      \<lparr>name = ''proxy-list.download HTTP'',
       url = ''https://www.proxy-list.download/api/v1/get?type=http'',
       parser = parse_proxy_list_download lib\<rparr>,
      \<lparr>name = ''proxy-list.download HTTPS'',
       url = ''https://www.proxy-list.download/api/v1/get?type=https'',
       parser = parse_proxy_list_download lib\<rparr>,
      \<lparr>name = ''proxyscrape HTTP'',
       url = ''https://api.proxyscrape.com/v2/?request=getproxies&protocol=http&timeout=10000&country=all&ssl=all&anonymity=all'',
       parser = parse_proxyscrape\<rparr>]"

text \<open>
  \<open>fetch_proxy_list\<close>, given what its \<open>requests.get\<close> meets: the line it prints and the
  list it returns. It never raises.
\<close>

definition fetch_proxy_list :: "source \<Rightarrow> exn + 'f response \<Rightarrow> string \<times> string list" where
  "fetch_proxy_list source got =
     (case got of
        Inr response \<Rightarrow>
          if status_code response = 200 then
            let proxies = parser source (resp_text response) in
            (check_mark @ '' '' @ name source @ '': Found '' @ str_int (int (length proxies))
               @ '' proxies'', proxies)
          else
            (cross_mark @ '' '' @ name source @ '': HTTP '' @ str_int (status_code response), [])
      | Inl (RequestException m) \<Rightarrow> (cross_mark @ '' '' @ name source @ '': '' @ m, [])
      | Inl (OtherException m) \<Rightarrow>
          (cross_mark @ '' '' @ name source @ '': Parse error - '' @ m, []))"

subsection \<open>Collecting the candidates\<close>

text \<open>
  The timing of one run: the order in which the fetching workers print, the order in which
  the fetches finish, the order in which the set of candidates is listed, and the order in
  which the probes finish.
\<close>

record timing =
  fetch_print_order :: "nat list"
  fetch_done_order :: "nat list"
  set_order :: "nat list"
  probe_done_order :: "nat list"

definition fetch_all :: "'f pylib \<Rightarrow> (string \<Rightarrow> exn + 'f response) \<Rightarrow> (string \<times> string list) list" where
  "fetch_all lib web = map (\<lambda>source. fetch_proxy_list source (web (url source))) (sources lib)"

text \<open>The loop over the finished fetches: a non-empty list is cut and appended.\<close>

fun collect :: "int \<Rightarrow> string list list \<Rightarrow> string list \<Rightarrow> string list" where
  "collect max_proxies_per_source [] all_proxies = all_proxies"
| "collect max_proxies_per_source (proxies # rest) all_proxies =
     (if proxies \<noteq> [] then
        let limited_proxies = slice_to proxies max_proxies_per_source in
        collect max_proxies_per_source rest (all_proxies @ limited_proxies)
      else collect max_proxies_per_source rest all_proxies)"

text \<open>
  \<open>list(set(xs))\<close>: the distinct items of \<open>xs\<close>, in an order that the hashing decides.
\<close>

definition list_set :: "nat list \<Rightarrow> 'a list \<Rightarrow> 'a list" where
  "list_set order xs = as_completed order (remdups xs)"

definition test_proxies :: "string list" where
  "test_proxies = [''8.8.8.8:80'', ''1.1.1.1:80'', ''208.67.222.222:80'', ''208.67.220.220:80'']"

text \<open>
  The value of \<open>all_proxies\<close> at three points of \<open>find_working_proxies\<close>: after the loop
  over the fetches, after the removal of duplicates, and when the probes are submitted.
\<close>

definition pooled_proxies ::
  "'f pylib \<Rightarrow> (string \<Rightarrow> exn + 'f response) \<Rightarrow> timing \<Rightarrow> int \<Rightarrow> string list" where
  "pooled_proxies lib web tm max_proxies_per_source =
     collect max_proxies_per_source
       (as_completed (fetch_done_order tm) (map snd (fetch_all lib web))) []"

definition unique_proxies ::
  "'f pylib \<Rightarrow> (string \<Rightarrow> exn + 'f response) \<Rightarrow> timing \<Rightarrow> int \<Rightarrow> string list" where
  "unique_proxies lib web tm max_proxies_per_source =
     list_set (set_order tm) (pooled_proxies lib web tm max_proxies_per_source)"

definition proxies_to_test ::
  "'f pylib \<Rightarrow> (string \<Rightarrow> exn + 'f response) \<Rightarrow> timing \<Rightarrow> int \<Rightarrow> string list" where
  "proxies_to_test lib web tm max_proxies_per_source =
     (let all_proxies = unique_proxies lib web tm max_proxies_per_source in
      if all_proxies = [] then all_proxies @ test_proxies else all_proxies)"

subsection \<open>Probing and reporting\<close>

definition finder_working_line :: "'f pylib \<Rightarrow> 'f pydict \<Rightarrow> exn + string" where
  "finder_working_line lib result =
     (case getitem result ''proxy'' of
        Inl e \<Rightarrow> Inl e
      | Inr proxy \<Rightarrow>
          (case getitem result ''response_time'' of
             Inl e \<Rightarrow> Inl e
           | Inr t \<Rightarrow>
               Inr (check_mark @ '' '' @ py_str lib proxy @ '' - '' @ py_str lib t @ ''s - IP: ''
                    @ py_str lib (case map_of result ''real_ip'' of
                                    Some v \<Rightarrow> v | None \<Rightarrow> JStr ''N/A''))))"

definition finder_failed_line :: "'f pylib \<Rightarrow> 'f pydict \<Rightarrow> exn + string" where
  "finder_failed_line lib result =
     (case getitem result ''proxy'' of
        Inl e \<Rightarrow> Inl e
      | Inr proxy \<Rightarrow>
          (case getitem result ''error'' of
             Inl e \<Rightarrow> Inl e
           | Inr err \<Rightarrow> Inr (cross_mark @ '' '' @ py_str lib proxy @ '' - '' @ py_str lib err)))"

text \<open>The body of the loop over the finished probes: only a working outcome is kept.\<close>

definition finder_loop_body ::
  "'f pylib \<Rightarrow> 'f pydict \<Rightarrow> 'f pydict list \<times> world \<Rightarrow> exn option \<times> 'f pydict list \<times> world" where
  "finder_loop_body lib result st =
     (case st of (working_proxies, w) \<Rightarrow>
        (case getitem result ''status'' of
           Inl e \<Rightarrow> (Some e, working_proxies, w)
         | Inr status \<Rightarrow>
             if status = JStr ''working'' then
               let working_proxies = working_proxies @ [result] in
               (case finder_working_line lib result of
                  Inl e \<Rightarrow> (Some e, working_proxies, w)
                | Inr line \<Rightarrow> (None, working_proxies, print w line))
             else
               (case finder_failed_line lib result of
                  Inl e \<Rightarrow> (Some e, working_proxies, w)
                | Inr line \<Rightarrow> (None, working_proxies, print w line))))"

text \<open>The probes of one run, in the order in which they finish.\<close>

definition finder_outcomes ::
  "'f pylib \<Rightarrow> (string \<Rightarrow> exn + 'f response) \<Rightarrow> (nat \<Rightarrow> string \<Rightarrow> 'f probe_io) \<Rightarrow> timing \<Rightarrow> int
     \<Rightarrow> 'f pydict list" where
  "finder_outcomes lib web net tm max_proxies_per_source =
     as_completed (probe_done_order tm)
       (map (\<lambda>(i, proxy). finder_check_proxy (round2 lib) proxy (net i proxy))
            (with_position 0 (proxies_to_test lib web tm max_proxies_per_source)))"

definition find_working_proxies ::
  "'f pylib \<Rightarrow> (string \<Rightarrow> exn + 'f response) \<Rightarrow> (nat \<Rightarrow> string \<Rightarrow> 'f probe_io) \<Rightarrow> timing
     \<Rightarrow> int \<Rightarrow> int \<Rightarrow> world \<Rightarrow> (exn + 'f pydict list) \<times> world" where
  "find_working_proxies lib web net tm max_proxies_per_source max_workers w =
     (let w1 = print w ''Fetching proxy lists from sources...'';
          w2 = fold (\<lambda>line w. print w line)
                 (as_completed (fetch_print_order tm) (map fst (fetch_all lib web))) w1;
          unique = unique_proxies lib web tm max_proxies_per_source;
          w3 = print w2 ([LF] @ ''Collected '' @ str_int (int (length unique))
                         @ '' unique proxies'');
          w4 = (if unique = [] then
                  print w3 ''No proxies found from sources. Using test proxies...''
                else w3);
          all_proxies = proxies_to_test lib web tm max_proxies_per_source;
          w5 = print w4 (''Testing '' @ str_int (int (length all_proxies)) @ '' proxies...'')
      in
      if max_workers \<le> 0 then
        (Inl (OtherException ''max_workers must be greater than 0''), w5)
      else
        (case for_each (finder_loop_body lib)
                (finder_outcomes lib web net tm max_proxies_per_source) ([], w5) of
           (Some e, working_proxies, w6) \<Rightarrow> (Inl e, w6)
         | (None, working_proxies, w6) \<Rightarrow>
             (Inr working_proxies,
              print w6 ([LF] @ ''Found '' @ str_int (int (length working_proxies))
                        @ '' working proxies''))))"

text \<open>One line of \<open>working_proxies.txt\<close>; the state is the text written so far.\<close>

definition txt_line_body :: "'f pylib \<Rightarrow> 'f pydict \<Rightarrow> string \<Rightarrow> exn option \<times> string" where
  "txt_line_body lib proxy written =
     (case getitem proxy ''proxy'' of
        Inl e \<Rightarrow> (Some e, written)
      | Inr p \<Rightarrow> (None, written @ py_str lib p @ [LF]))"

definition finder_main ::
  "'f pylib \<Rightarrow> (string \<Rightarrow> exn + 'f response) \<Rightarrow> (nat \<Rightarrow> string \<Rightarrow> 'f probe_io) \<Rightarrow> timing \<Rightarrow> world
     \<Rightarrow> exit_status \<times> world" where
  "finder_main lib web net tm w =
     (case find_working_proxies lib web net tm 50 20 w of
        (Inl e, w1) \<Rightarrow> (Uncaught e, w1)
      | (Inr working_proxies, w1) \<Rightarrow>
          let w2 = write_file w1 ''working_proxies.json''
                     (json_dumps lib (JArr (map JObj working_proxies)))
          in
          (case for_each (txt_line_body lib) working_proxies [] of
             (Some e, written) \<Rightarrow> (Uncaught e, write_file w2 ''working_proxies.txt'' written)
           | (None, written) \<Rightarrow>
               (Returned,
                print (write_file w2 ''working_proxies.txt'' written)
                  ([LF] @ ''Results saved to working_proxies.json and working_proxies.txt''))))"

text \<open>The test of the reporting loops: the status of an outcome is \<open>'working'\<close>.\<close>

definition is_working :: "'f pydict \<Rightarrow> bool" where
  "is_working r = (map_of r ''status'' = Some (JStr ''working''))"


section \<open>Concrete probes used as test inputs\<close>

definition html_200 :: "real probe_io" where
  "html_200 =
     \<lparr>get_result = Inr \<lparr>status_code = 200, resp_text = ''<html></html>'',
        resp_json = Inl (RequestException ''Expecting value: line 1 column 1 (char 0)''),
        elapsed_total_seconds = 1/4\<rparr>,
      wall_clock = 1/4\<rparr>"


definition empty_object_200 :: "real probe_io" where
  "empty_object_200 =
     \<lparr>get_result = Inr \<lparr>status_code = 200, resp_text = ''{}'',
        resp_json = Inr (JObj []), elapsed_total_seconds = 1/4\<rparr>,
      wall_clock = 1/4\<rparr>"

definition origin_200 :: "real probe_io" where
  "origin_200 =
     \<lparr>get_result = Inr \<lparr>status_code = 200, resp_text = ''{origin: 1.2.3.4}'',
        resp_json = Inr (JObj [(''origin'', JStr ''1.2.3.4'')]), elapsed_total_seconds = 1/4\<rparr>,
      wall_clock = 1/4\<rparr>"

definition refused :: "real probe_io" where
  "refused = \<lparr>get_result = Inl (RequestException ''Connection refused''), wall_clock = 0\<rparr>"

section \<open>Concrete libraries, files and networks used as test inputs\<close>

text \<open>A stand-in for the JSON encoder: compact text, every float written alike.\<close>

fun compact_json :: "real json \<Rightarrow> string" where
  "compact_json JNull = ''null''"
| "compact_json (JBool b) = (if b then ''true'' else ''false'')"
| "compact_json (JInt i) = str_int i"
| "compact_json (JFloat x) = ''0.25''"
| "compact_json (JStr s) = [CHR 0x22] @ s @ [CHR 0x22]"
| "compact_json (JArr xs) = ''['' @ concat (map (\<lambda>x. compact_json x @ '','') xs) @ '']''"
| "compact_json (JObj kvs) =
     ''{'' @ concat (map (\<lambda>kv. fst kv @ '':'' @ compact_json (snd kv) @ '','') kvs) @ ''}''"

definition test_lib :: "real pylib" where
  "test_lib =
     \<lparr>round2 = id,
      format_2f = (\<lambda>x. ''0.25''),
      str_float = (\<lambda>x. ''0.25''),
      str_container = (\<lambda>v. ''[...]''),
      json_loads = (\<lambda>s. Inl (OtherException ''Expecting value: line 1 column 1 (char 0)'')),
      json_dumps = compact_json\<rparr>"

text \<open>
  An input file with a comment, a blank line, surrounding blanks, a \<open>\r\n\<close> terminator
  and a candidate listed twice.
\<close>

definition proxies_txt :: string where
  "proxies_txt = ''1.1.1.1:80'' @ [LF] @ ''# a comment'' @ [LF] @ [LF]
       @ ''  2.2.2.2:8080 '' @ [CR, LF] @ ''1.1.1.1:80''"

definition test_world :: world where
  "test_world = \<lparr>files = [''proxies.txt'' \<mapsto> proxies_txt], stdout = []\<rparr>"

definition empty_world :: world where
  "empty_world = \<lparr>files = Map.empty, stdout = []\<rparr>"

text \<open>A network on which only the probe submitted first succeeds, and one on which none does.\<close>

definition test_net :: "nat \<Rightarrow> string \<Rightarrow> real probe_io" where
  "test_net i proxy = (if i = 0 then origin_200 else refused)"

definition dead_net :: "nat \<Rightarrow> string \<Rightarrow> real probe_io" where
  "dead_net i proxy = refused"

text \<open>No list source can be reached.\<close>

definition dead_web :: "string \<Rightarrow> exn + real response" where
  "dead_web u = Inl (RequestException ''Connection refused'')"

text \<open>Every list source answers with the same candidate on two lines.\<close>

definition twice_web :: "string \<Rightarrow> exn + real response" where
  "twice_web u =
     Inr \<lparr>status_code = 200, resp_text = ''1.1.1.1:80'' @ [LF] @ ''1.1.1.1:80'',
          resp_json = Inl (RequestException ''Expecting value: line 1 column 1 (char 0)''),
          elapsed_total_seconds = 1/4\<rparr>"

definition tm0 :: timing where
  "tm0 = \<lparr>fetch_print_order = [], fetch_done_order = [], set_order = [], probe_done_order = []\<rparr>"

definition tm1 :: timing where
  "tm1 = \<lparr>fetch_print_order = [1, 2], fetch_done_order = [3, 0, 1], set_order = [1],
          probe_done_order = [2, 0]\<rparr>"

text \<open>
  One list source answers with fifty-one distinct candidates, one per line; the others
  cannot be reached or answer with status 503.
\<close>

definition fifty_one_lines :: string where
  "fifty_one_lines = concat (map (\<lambda>k. ''10.0.0.'' @ str_nat k @ '':80'' @ [LF]) [1..<52])"

definition long_web :: "string \<Rightarrow> exn + real response" where
  "long_web u =
     (if u = ''https://free-proxy-list.net/'' then Inl (RequestException ''Connection refused'')
      else Inr \<lparr>status_code = (if take 28 u = ''https://api.proxyscrape.com/'' then 200 else 503),
                resp_text = fifty_one_lines,
                resp_json = Inl (RequestException ''Expecting value: line 1 column 1 (char 0)''),
                elapsed_total_seconds = 1/4\<rparr>)"

section \<open>Properties of the probes\<close>


lemma data_get_Inr:
  "(data_get d k dflt = Inr v) =
     (\<exists>kvs. d = JObj kvs \<and> v = (case map_of kvs k of Some v \<Rightarrow> v | None \<Rightarrow> dflt))"
  by (cases d) auto

lemma check_proxy_except_wf: "outcome_wellformed (check_proxy_except proxy e)"
  by (cases e) (simp_all add: outcome_wellformed_def has_key_def)

lemma check_proxy_wf: "outcome_wellformed (check_proxy proxy io)"
  by (simp add: check_proxy_def check_proxy_except_wf split: sum.split)
     (simp add: outcome_wellformed_def has_key_def)

lemma finder_check_proxy_wf: "outcome_wellformed (finder_check_proxy rnd proxy io)"
  by (simp add: finder_check_proxy_def outcome_wellformed_def has_key_def Let_def split: sum.split)

lemma check_proxy_except_no_real_ip: "\<not> has_key (check_proxy_except proxy e) ''real_ip''"
  by (cases e) (simp_all add: has_key_def)

lemma check_proxy_real_ip:
  "has_key (check_proxy proxy io) ''real_ip'' =
      (\<exists>response kvs. get_result io = Inr response \<and> status_code response = 200
               \<and> resp_json response = Inr (JObj kvs))"
  apply (simp add: check_proxy_def check_proxy_except_no_real_ip split: sum.split)
  apply (auto simp: has_key_def data_get_Inr)
  done

lemma finder_check_proxy_real_ip:
  "has_key (finder_check_proxy rnd proxy io) ''real_ip'' =
      (\<exists>response kvs. get_result io = Inr response \<and> status_code response = 200
               \<and> resp_json response = Inr (JObj kvs))"
  apply (simp add: finder_check_proxy_def Let_def split: sum.split)
  apply (auto simp: has_key_def data_get_Inr)
  done

lemma check_proxy_real_ip_status:
  "has_key (check_proxy proxy io) ''real_ip'' \<Longrightarrow>
     map_of (check_proxy proxy io) ''status'' = Some (JStr ''working'')"
  by (auto simp: check_proxy_def check_proxy_except_no_real_ip has_key_def split: sum.splits if_splits)
    (use check_proxy_except_no_real_ip has_key_def in fastforce)+

lemma finder_check_proxy_real_ip_status:
  "has_key (finder_check_proxy rnd proxy io) ''real_ip'' \<Longrightarrow>
     map_of (finder_check_proxy rnd proxy io) ''status'' = Some (JStr ''working'')"
  by (auto simp: finder_check_proxy_def has_key_def Let_def split: sum.splits if_splits)

lemma check_proxy_real_ip_value:
  "get_result io = Inr response \<Longrightarrow> status_code response = 200 \<Longrightarrow>
   resp_json response = Inr (JObj kvs) \<Longrightarrow>
   map_of (check_proxy proxy io) ''real_ip'' =
     Some (case map_of kvs ''origin'' of Some v \<Rightarrow> v | None \<Rightarrow> JStr ''unknown'')"
  by (simp add: check_proxy_def)

lemma finder_check_proxy_real_ip_value:
  "get_result io = Inr response \<Longrightarrow> status_code response = 200 \<Longrightarrow>
   resp_json response = Inr (JObj kvs) \<Longrightarrow>
   map_of (finder_check_proxy rnd proxy io) ''real_ip'' =
     Some (case map_of kvs ''origin'' of Some v \<Rightarrow> v | None \<Rightarrow> JStr ''unknown'')"
  by (simp add: finder_check_proxy_def)

text \<open>
  For comparison with the file-check tool: in the aggregation tool a 200 response whose
  body does not decode is a working outcome without \<open>real_ip\<close>.
\<close>

lemma finder_unparsable_body_is_working:
  assumes "get_result io = Inr response" and "status_code response = 200"
    and "resp_json response = Inl e"
  shows "finder_check_proxy rnd proxy io =
     [(''proxy'', JStr proxy), (''status'', JStr ''working''),
      (''response_time'', JFloat (rnd (wall_clock io))), (''protocol'', JStr ''http'')]"
  using assms by (simp add: finder_check_proxy_def)

lemma checker_unparsable_body_is_handled_as_exception:
  assumes "get_result io = Inr response" and "status_code response = 200"
    and "resp_json response = Inl e"
  shows "check_proxy proxy io = check_proxy_except proxy e"
  using assms by (simp add: check_proxy_def)

text \<open>
  C1. A probe that receives status 200 with a body that is not JSON is claimed to end as
  \<open>working\<close> without the external address, in both tools. Evaluated on such a response,
  the aggregation tool's probe does so, while the file-check tool's probe has no inner
  handler around \<open>response.json()\<close>: the decoding error reaches the outer \<open>except\<close> and the
  outcome is \<open>failed\<close> with the decoder's message as error.
\<close>

theorem unparsable_body_checker_failed_finder_working:
  "check_proxy ''10.0.0.1:8080'' html_200 =
     [(''proxy'', JStr ''10.0.0.1:8080''), (''status'', JStr ''failed''),
      (''error'', JStr ''Expecting value: line 1 column 1 (char 0)'')]
   \<and> finder_check_proxy id ''10.0.0.1:8080'' html_200 =
     [(''proxy'', JStr ''10.0.0.1:8080''), (''status'', JStr ''working''),
      (''response_time'', JFloat (1/4)), (''protocol'', JStr ''http'')]"
  by (simp add: check_proxy_def finder_check_proxy_def html_200_def)

text \<open>
  C2, as stated: \<open>real_ip\<close> is absent whenever the 200 body has no origin field. It fails on
  the body \<open>{}\<close>: both probes store the default \<open>'unknown'\<close> under \<open>real_ip\<close>.
\<close>

theorem real_ip_present_without_origin:
  "map_of (check_proxy ''10.0.0.1:8080'' empty_object_200) ''real_ip'' = Some (JStr ''unknown'')
   \<and> map_of (finder_check_proxy id ''10.0.0.1:8080'' empty_object_200) ''real_ip''
       = Some (JStr ''unknown'')
   \<and> get_result empty_object_200 = Inr \<lparr>status_code = 200, resp_text = ''{}'',
        resp_json = Inr (JObj []), elapsed_total_seconds = 1/4\<rparr>
   \<and> \<not> has_key ([] :: real pydict) ''origin''"
  by (simp add: check_proxy_def finder_check_proxy_def empty_object_200_def has_key_def)

text \<open>
  C2, amended: in both tools \<open>real_ip\<close> is present exactly when a 200 response was received
  whose body decoded to a JSON object; the outcome is then \<open>working\<close>, and the value is the
  object's \<open>origin\<close> entry when it has one and the literal \<open>'unknown'\<close> when it has none.
\<close>

theorem real_ip_present_iff_json_object:
  assumes "out = check_proxy proxy io \<or> out = finder_check_proxy rnd proxy io"
  shows "(has_key out ''real_ip'' =
           (\<exists>response kvs. get_result io = Inr response \<and> status_code response = 200
               \<and> resp_json response = Inr (JObj kvs)))
    \<and> (has_key out ''real_ip'' \<longrightarrow> map_of out ''status'' = Some (JStr ''working''))
    \<and> (\<forall>response kvs. get_result io = Inr response \<and> status_code response = 200
              \<and> resp_json response = Inr (JObj kvs)
       \<longrightarrow> map_of out ''real_ip'' =
             Some (case map_of kvs ''origin'' of Some v \<Rightarrow> v | None \<Rightarrow> JStr ''unknown''))"
  using assms
proof
  assume o: "out = check_proxy proxy io"
  show ?thesis unfolding o
    using check_proxy_real_ip [of proxy io] check_proxy_real_ip_status [of proxy io]
      check_proxy_real_ip_value [of io _ _ proxy] by blast
next
  assume o: "out = finder_check_proxy rnd proxy io"
  show ?thesis unfolding o
    using finder_check_proxy_real_ip [of rnd proxy io]
      finder_check_proxy_real_ip_status [of rnd proxy io]
      finder_check_proxy_real_ip_value [of io _ _ rnd proxy] by blast
qed

theorem real_ip_present_iff_json_object_witness:
  "has_key (check_proxy ''10.0.0.1:8080'' origin_200) ''real_ip''
   \<and> map_of (check_proxy ''10.0.0.1:8080'' origin_200) ''status'' = Some (JStr ''working'')
   \<and> map_of (check_proxy ''10.0.0.1:8080'' origin_200) ''real_ip'' = Some (JStr ''1.2.3.4'')"
  using real_ip_present_iff_json_object
    [of "check_proxy ''10.0.0.1:8080'' origin_200" "''10.0.0.1:8080''" origin_200 id]
  by (simp add: origin_200_def)

text \<open>
  C3. Every outcome record produced by either probe is well formed: the status is
  \<open>'working'\<close> or \<open>'failed'\<close>, \<open>response_time\<close> is present iff the status is \<open>'working'\<close>,
  \<open>error\<close> is present iff the status is \<open>'failed'\<close>, and the two are never both present.
\<close>

theorem probe_outcome_wellformed:
  "outcome_wellformed (check_proxy proxy io)
   \<and> outcome_wellformed (finder_check_proxy rnd proxy io)"
  by (simp add: check_proxy_wf finder_check_proxy_wf)

theorem probe_outcome_wellformed_witness:
  "outcome_wellformed (check_proxy ''10.0.0.1:8080'' refused)
   \<and> outcome_wellformed (finder_check_proxy id ''10.0.0.1:8080'' refused)
   \<and> map_of (check_proxy ''10.0.0.1:8080'' refused) ''error'' = Some (JStr ''Connection refused'')
   \<and> \<not> has_key (check_proxy ''10.0.0.1:8080'' refused) ''response_time''"
  using probe_outcome_wellformed [of "''10.0.0.1:8080''" refused id]
  by (simp add: check_proxy_def refused_def has_key_def)



section \<open>Properties of the runs\<close>

subsection \<open>The order of completion is a permutation\<close>

lemma mset_remove_nth:
  "i < length xs \<Longrightarrow> add_mset (xs ! i) (mset (take i xs) + mset (drop (Suc i) xs)) = mset xs"
proof -
  assume "i < length xs"
  then have "xs = take i xs @ xs ! i # drop (Suc i) xs"
    by (rule id_take_nth_drop)
  then have "mset xs = mset (take i xs @ xs ! i # drop (Suc i) xs)"
    by simp
  then show ?thesis by simp
qed

lemma mset_as_completed: "mset (as_completed choices xs) = mset xs"
proof (induction choices xs rule: as_completed.induct)
  case (1 choices)
  show ?case by simp
next
  case (2 choices p ps)
  define pending where "pending = p # ps"
  define i where "i = (case choices of [] \<Rightarrow> 0 | c # _ \<Rightarrow> c mod length pending)"
  have i: "i < length pending"
    unfolding i_def pending_def by (cases choices) simp_all
  have IH: "mset (as_completed (tl choices) (take i pending @ drop (Suc i) pending))
            = mset (take i pending @ drop (Suc i) pending)"
    using "2.IH" [OF pending_def i_def] .
  have "as_completed choices (p # ps)
          = pending ! i # as_completed (tl choices) (take i pending @ drop (Suc i) pending)"
    unfolding pending_def i_def by (simp only: as_completed.simps Let_def)
  then have "mset (as_completed choices (p # ps))
          = add_mset (pending ! i) (mset (take i pending) + mset (drop (Suc i) pending))"
    using IH by simp
  also have "\<dots> = mset pending"
    using i by (rule mset_remove_nth)
  finally show ?case by (simp add: pending_def)
qed

lemma set_as_completed: "set (as_completed choices xs) = set xs"
  using mset_as_completed [of choices xs] by (metis set_mset_mset)

lemma length_as_completed: "length (as_completed choices xs) = length xs"
  using mset_as_completed [of choices xs] by (metis size_mset)

lemma distinct_as_completed: "distinct (as_completed choices xs) = distinct xs"
  using mset_as_completed [of choices xs] by (metis mset_eq_imp_distinct_iff)

text \<open>
  Conversely every order of the submitted items is yielded for some timing, so a statement
  for all timings covers every order in which the futures can finish.
\<close>

lemma as_completed_Cons:
  "i < length xs \<Longrightarrow> as_completed (i # choices) xs
     = xs ! i # as_completed choices (take i xs @ drop (Suc i) xs)"
  by (cases xs) (simp_all add: Let_def)

lemma every_order_is_a_completion_order:
  "mset ys = mset xs \<Longrightarrow> \<exists>choices. as_completed choices xs = ys"
proof (induction ys arbitrary: xs)
  case Nil
  then have "xs = []" by simp
  then show ?case by simp
next
  case (Cons y ys)
  then have "y \<in> set xs" by (metis list.set_intros(1) mset_eq_setD)
  then obtain i where i: "i < length xs" and y: "xs ! i = y"
    by (auto simp: in_set_conv_nth)
  have a: "add_mset y (mset (take i xs @ drop (Suc i) xs)) = mset xs"
    using mset_remove_nth [OF i] y by simp
  have b: "add_mset y (mset ys) = mset xs"
    using Cons.prems by simp
  have "add_mset y (mset ys) = add_mset y (mset (take i xs @ drop (Suc i) xs))"
    by (simp only: a b)
  then have "mset ys = mset (take i xs @ drop (Suc i) xs)"
    by (simp only: add_mset_add_mset_same_iff)
  from Cons.IH [OF this] obtain choices
    where "as_completed choices (take i xs @ drop (Suc i) xs) = ys" by blast
  then have "as_completed (i # choices) xs = y # ys"
    using as_completed_Cons [OF i] y by simp
  then show ?case by blast
qed

lemma map_snd_with_position: "map snd (with_position i xs) = xs"
  by (induction xs arbitrary: i) simp_all

lemma length_with_position: "length (with_position i xs) = length xs"
  by (induction xs arbitrary: i) simp_all

lemma distinct_list_set: "distinct (list_set order xs)"
  by (simp add: list_set_def distinct_as_completed)

lemma set_list_set: "set (list_set order xs) = set xs"
  by (simp add: list_set_def set_as_completed)

lemma slice_to_nonneg: "0 \<le> m \<Longrightarrow> slice_to xs m = take (nat m) xs"
  by (simp add: slice_to_def)

lemma collect_nonneg:
  "0 \<le> m \<Longrightarrow> collect m xss acc = acc @ concat (map (take (nat m)) xss)"
  by (induction xss arbitrary: acc) (simp_all add: slice_to_nonneg Let_def)

lemma check_proxy_except_proxy: "map_of (check_proxy_except proxy e) ''proxy'' = Some (JStr proxy)"
  by (cases e) simp_all

lemma check_proxy_proxy: "map_of (check_proxy proxy io) ''proxy'' = Some (JStr proxy)"
  by (simp add: check_proxy_def check_proxy_except_proxy split: sum.split)

lemma finder_check_proxy_proxy: "map_of (finder_check_proxy rnd proxy io) ''proxy'' = Some (JStr proxy)"
  by (simp add: finder_check_proxy_def Let_def split: sum.split)


lemma check_proxy_except_shape:
  "\<exists>m. check_proxy_except proxy e =
         [(''proxy'', JStr proxy), (''status'', JStr ''failed''), (''error'', JStr m)]"
  by (cases e) simp_all

lemma check_proxy_shape:
  "(\<exists>t ip. check_proxy proxy io =
       [(''proxy'', JStr proxy), (''status'', JStr ''working''),
        (''response_time'', JFloat t), (''real_ip'', ip)])
   \<or> (\<exists>m. check_proxy proxy io =
       [(''proxy'', JStr proxy), (''status'', JStr ''failed''), (''error'', JStr m)])"
  using check_proxy_except_shape [of proxy]
  by (auto simp: check_proxy_def split: sum.split)

lemma files_print: "files (print w line) = files w"
  by (simp add: print_def)

lemma checker_loop_body_ok:
  "\<exists>c' w'. checker_loop_body lib (check_proxy proxy io) (rs, c, w)
              = (None, rs @ [check_proxy proxy io], c', w') \<and> files w' = files w"
  using check_proxy_shape [of proxy io]
  by (auto simp: checker_loop_body_def checker_working_line_def checker_failed_line_def
        getitem_def py_format_2f_def files_print)

lemma for_each_checker:
  "(\<forall>r \<in> set outs. \<exists>p io. r = check_proxy p io) \<Longrightarrow>
   \<exists>c' w'. for_each (checker_loop_body lib) outs (rs, c, w) = (None, rs @ outs, c', w')
           \<and> files w' = files w"
proof (induction outs arbitrary: rs c w)
  case Nil
  then show ?case by simp
next
  case (Cons r outs)
  then obtain p io where r: "r = check_proxy p io" by auto
  obtain c1 w1 where step: "checker_loop_body lib r (rs, c, w) = (None, rs @ [r], c1, w1)"
    and f1: "files w1 = files w"
    using checker_loop_body_ok [of lib p io rs c w] r by auto
  from Cons have "\<forall>r \<in> set outs. \<exists>p io. r = check_proxy p io" by simp
  from Cons.IH [OF this, of "rs @ [r]" c1 w1]
  obtain c' w' where
    "for_each (checker_loop_body lib) outs (rs @ [r], c1, w1) = (None, (rs @ [r]) @ outs, c', w')"
    and "files w' = files w1" by auto
  then show ?case using step f1 by simp
qed

lemma checker_outcomes_are_probes:
  "\<forall>r \<in> set (checker_outcomes net done_order proxies). \<exists>p io. r = check_proxy p io"
  by (auto simp: checker_outcomes_def set_as_completed)

lemma checker_outcomes_candidates:
  "mset (map (\<lambda>r. map_of r ''proxy'') (checker_outcomes net done_order proxies))
     = mset (map (\<lambda>p. Some (JStr p)) proxies)"
proof -
  let ?futures = "map (\<lambda>(i, proxy). check_proxy proxy (net i proxy)) (with_position 0 proxies)"
  have "map (\<lambda>r. map_of r ''proxy'') ?futures
        = map (\<lambda>p. Some (JStr p)) (map snd (with_position 0 proxies))"
    by (simp add: check_proxy_proxy case_prod_beta)
  then have futures: "map (\<lambda>r. map_of r ''proxy'') ?futures = map (\<lambda>p. Some (JStr p)) proxies"
    by (simp only: map_snd_with_position)
  have "mset (map (\<lambda>r. map_of r ''proxy'') (checker_outcomes net done_order proxies))
        = image_mset (\<lambda>r. map_of r ''proxy'') (mset (as_completed done_order ?futures))"
    by (simp only: checker_outcomes_def mset_map)
  also have "\<dots> = image_mset (\<lambda>r. map_of r ''proxy'') (mset ?futures)"
    by (simp only: mset_as_completed)
  also have "\<dots> = mset (map (\<lambda>r. map_of r ''proxy'') ?futures)"
    by (simp only: mset_map)
  finally show ?thesis by (simp only: futures)
qed

lemma length_checker_outcomes:
  "length (checker_outcomes net done_order proxies) = length proxies"
  by (simp add: checker_outcomes_def length_as_completed length_with_position)

lemma check_proxies_from_file_results:
  assumes "files w filename = Some content" and "0 < max_workers"
  shows "\<exists>w'. check_proxies_from_file lib net done_order filename max_workers w
              = (Inr (checker_outcomes net done_order (read_proxies content)), w')
            \<and> files w' = files w"
proof -
  define w2 where "w2 = print (print w (''Loaded '' @ str_int (int (length (read_proxies content)))
        @ '' proxies from '' @ filename))
      (''Checking proxies with '' @ str_int max_workers @ '' concurrent threads...'')"
  have f2: "files w2 = files w" by (simp add: w2_def files_print)
  obtain c' w3 where loop: "for_each (checker_loop_body lib)
        (checker_outcomes net done_order (read_proxies content)) ([], 0, w2)
      = (None, [] @ checker_outcomes net done_order (read_proxies content), c', w3)"
    and f3: "files w3 = files w2"
    using for_each_checker [OF checker_outcomes_are_probes, of lib net done_order
        "read_proxies content" "[]" 0 w2] by auto
  show ?thesis
    using assms loop f2 f3
    by (simp add: check_proxies_from_file_def Let_def w2_def files_print)
qed


text \<open>
  A worker count that is not positive is refused by the executor before any probe is
  submitted; the worker caps of the claims below are positive.
\<close>

lemma check_proxies_from_file_rejects_nonpositive_cap:
  assumes "files w filename = Some content" and "max_workers \<le> 0"
  shows "fst (check_proxies_from_file lib net done_order filename max_workers w)
           = Inl (OtherException ''max_workers must be greater than 0'')"
  using assms by (simp add: check_proxies_from_file_def Let_def)

text \<open>
  C4. For every candidate list read from the input file and every worker cap (a positive
  number of workers), \<open>check_proxies_from_file\<close> returns a result list with exactly one
  outcome per candidate: its length is the number of candidates, and the \<open>proxy\<close> fields of
  the outcomes are the candidates as a multiset, so a candidate listed twice has two
  outcomes; no candidate gives the empty list.
\<close>

theorem runner_yields_one_outcome_per_candidate:
  assumes "files w filename = Some content" and "0 < max_workers"
  shows "\<exists>results w'.
           check_proxies_from_file lib net done_order filename max_workers w = (Inr results, w')
         \<and> length results = length (read_proxies content)
         \<and> mset (map (\<lambda>r. map_of r ''proxy'') results)
             = mset (map (\<lambda>p. Some (JStr p)) (read_proxies content))
         \<and> (read_proxies content = [] \<longrightarrow> results = [])"
proof -
  obtain w' where "check_proxies_from_file lib net done_order filename max_workers w
              = (Inr (checker_outcomes net done_order (read_proxies content)), w')"
    using check_proxies_from_file_results [OF assms] by blast
  then show ?thesis
    using checker_outcomes_candidates [of net done_order "read_proxies content"]
      length_checker_outcomes [of net done_order "read_proxies content"]
    by auto
qed

lemma read_proxies_txt:
  "read_proxies proxies_txt = [''1.1.1.1:80'', ''2.2.2.2:8080'', ''1.1.1.1:80'']"
  by code_simp


theorem runner_yields_one_outcome_per_candidate_witness:
  "\<exists>results w'.
      check_proxies_from_file test_lib test_net [2, 0] ''proxies.txt'' 10 test_world
        = (Inr results, w')
    \<and> length results = 3
    \<and> mset (map (\<lambda>r. map_of r ''proxy'') results)
        = {#Some (JStr ''1.1.1.1:80''), Some (JStr ''2.2.2.2:8080''), Some (JStr ''1.1.1.1:80'')#}"
proof -
  have f: "files test_world ''proxies.txt'' = Some proxies_txt"
    by (simp add: test_world_def)
  have w: "(0::int) < 10" by simp
  show ?thesis
    using runner_yields_one_outcome_per_candidate [OF f w, of test_lib test_net "[2, 0]"]
    by (simp add: read_proxies_txt numeral_3_eq_3)
qed

text \<open>The same run, evaluated: the outcomes arrive in the order of completion.\<close>

lemma checker_run_example:
  "fst (check_proxies_from_file test_lib test_net [2, 0] ''proxies.txt'' 10 test_world) =
     Inr [[(''proxy'', JStr ''1.1.1.1:80''), (''status'', JStr ''failed''),
           (''error'', JStr ''Connection refused'')],
          [(''proxy'', JStr ''1.1.1.1:80''), (''status'', JStr ''working''),
           (''response_time'', JFloat (1 / 4)), (''real_ip'', JStr ''1.2.3.4'')],
          [(''proxy'', JStr ''2.2.2.2:8080''), (''status'', JStr ''failed''),
           (''error'', JStr ''Connection refused'')]]"
  by code_simp







subsection \<open>The reporting loops never raise\<close>

lemma finder_check_proxy_shape:
  "(\<exists>t ip. finder_check_proxy rnd proxy io =
       [(''proxy'', JStr proxy), (''status'', JStr ''working''),
        (''response_time'', JFloat t), (''real_ip'', ip), (''protocol'', JStr ''http'')])
   \<or> (\<exists>t. finder_check_proxy rnd proxy io =
       [(''proxy'', JStr proxy), (''status'', JStr ''working''),
        (''response_time'', JFloat t), (''protocol'', JStr ''http'')])
   \<or> (\<exists>m. finder_check_proxy rnd proxy io =
       [(''proxy'', JStr proxy), (''status'', JStr ''failed''), (''error'', JStr m)])"
  by (auto simp: finder_check_proxy_def Let_def split: sum.split)

lemma finder_loop_body_ok:
  "\<exists>w'. finder_loop_body lib (finder_check_proxy rnd proxy io) (ws, w)
            = (None, ws @ filter is_working [finder_check_proxy rnd proxy io], w')
          \<and> files w' = files w"
  using finder_check_proxy_shape [of rnd proxy io]
  by (auto simp: finder_loop_body_def finder_working_line_def finder_failed_line_def
        getitem_def files_print is_working_def)

lemma for_each_finder:
  "(\<forall>r \<in> set outs. \<exists>rnd p io. r = finder_check_proxy rnd p io) \<Longrightarrow>
   \<exists>w'. for_each (finder_loop_body lib) outs (ws, w) = (None, ws @ filter is_working outs, w')
        \<and> files w' = files w"
proof (induction outs arbitrary: ws w)
  case Nil
  then show ?case by simp
next
  case (Cons r outs)
  then obtain rnd p io where r: "r = finder_check_proxy rnd p io" by auto
  obtain w1 where step: "finder_loop_body lib r (ws, w) = (None, ws @ filter is_working [r], w1)"
    and f1: "files w1 = files w"
    using finder_loop_body_ok [of lib rnd p io ws w] r by auto
  from Cons have "\<forall>r \<in> set outs. \<exists>rnd p io. r = finder_check_proxy rnd p io" by simp
  from Cons.IH [OF this, of "ws @ filter is_working [r]" w1]
  obtain w' where
    "for_each (finder_loop_body lib) outs (ws @ filter is_working [r], w1)
       = (None, (ws @ filter is_working [r]) @ filter is_working outs, w')"
    and "files w' = files w1" by auto
  then show ?case using step f1 by simp
qed

lemma finder_outcomes_are_probes:
  "\<forall>r \<in> set (finder_outcomes lib web net tm m). \<exists>rnd p io. r = finder_check_proxy rnd p io"
  by (auto simp: finder_outcomes_def set_as_completed)

lemma files_fold_print: "files (fold (\<lambda>line w. print w line) ls w) = files w"
  by (induction ls arbitrary: w) (simp_all add: files_print)

lemma finder_probe_phase:
  assumes "files w5 = files w"
  shows "\<exists>w'. (case for_each (finder_loop_body lib) (finder_outcomes lib web net tm m) ([], w5) of
               (Some e, working_proxies, w6) \<Rightarrow> (Inl e, w6)
             | (None, working_proxies, w6) \<Rightarrow>
                 (Inr working_proxies,
                  print w6 ([LF] @ ''Found '' @ str_int (int (length working_proxies))
                            @ '' working proxies'')))
              = (Inr (filter is_working (finder_outcomes lib web net tm m)), w')
            \<and> files w' = files w"
proof -
  obtain w6 where loop: "for_each (finder_loop_body lib) (finder_outcomes lib web net tm m) ([], w5)
      = (None, [] @ filter is_working (finder_outcomes lib web net tm m), w6)"
    and f6: "files w6 = files w5"
    using for_each_finder [OF finder_outcomes_are_probes, of lib lib web net tm m "[]" w5] by auto
  show ?thesis using loop f6 assms by (simp add: files_print)
qed

lemma find_working_proxies_results:
  assumes "0 < max_workers"
  shows "\<exists>w'. find_working_proxies lib web net tm m max_workers w
              = (Inr (filter is_working (finder_outcomes lib web net tm m)), w')
            \<and> files w' = files w"
proof -
  have nle: "(max_workers \<le> 0) = False" using assms by simp
  show ?thesis
    unfolding find_working_proxies_def Let_def nle if_False
    by (rule finder_probe_phase) (simp add: files_print files_fold_print)
qed

lemma for_each_txt:
  "(\<forall>r \<in> set ws. map_of r ''proxy'' \<noteq> None) \<Longrightarrow>
   \<exists>out. for_each (txt_line_body lib) ws written = (None, out)"
proof (induction ws arbitrary: written)
  case Nil
  then show ?case by simp
next
  case (Cons r ws)
  then obtain v where "map_of r ''proxy'' = Some v" by auto
  then have "txt_line_body lib r written = (None, written @ py_str lib v @ [LF])"
    by (simp add: txt_line_body_def getitem_def)
  then show ?case using Cons by simp
qed

lemma finder_main_results:
  "\<exists>w'. finder_main lib web net tm w = (Returned, w')
      \<and> files w' ''working_proxies.json'' =
          Some (json_dumps lib (JArr (map JObj (filter is_working (finder_outcomes lib web net tm 50)))))"
proof -
  obtain w1 where run: "find_working_proxies lib web net tm 50 20 w
              = (Inr (filter is_working (finder_outcomes lib web net tm 50)), w1)"
    using find_working_proxies_results [of 20 lib web net tm 50 w] by auto
  have "\<forall>r \<in> set (filter is_working (finder_outcomes lib web net tm 50)). map_of r ''proxy'' \<noteq> None"
    using finder_outcomes_are_probes [of lib web net tm 50]
    by (auto simp: finder_check_proxy_proxy)
  from for_each_txt [OF this, of lib "[]"]
  obtain out where loop2: "for_each (txt_line_body lib)
      (filter is_working (finder_outcomes lib web net tm 50)) [] = (None, out)" by auto
  show ?thesis
    using run loop2
    by (simp add: finder_main_def Let_def files_print write_file_def)
qed

lemma main_results:
  assumes "files w filename = Some content"
  shows "\<exists>w'. main lib net done_order [prog, filename] w = (Returned, w')
      \<and> files w' (rsplit_dot_head filename @ ''_results.json'') =
          Some (json_dumps lib (JArr (map JObj (checker_outcomes net done_order (read_proxies content)))))"
proof -
  have "(0::int) < 10" by simp
  from check_proxies_from_file_results [OF assms this, of lib net done_order]
  obtain w1 where "check_proxies_from_file lib net done_order filename 10 w
              = (Inr (checker_outcomes net done_order (read_proxies content)), w1)" by auto
  then show ?thesis
    by (simp add: main_def Let_def files_print write_file_def)
qed

text \<open>
  C8, as stated: in either tool the persisted JSON holds every produced outcome, working
  and failed. It fails for the aggregation tool: of four probes, one working and three
  failed, only the working outcome reaches \<open>working_proxies.json\<close>.
\<close>

theorem finder_sink_omits_failed_outcomes:
  "finder_outcomes test_lib dead_web test_net tm0 50 =
     [[(''proxy'', JStr ''8.8.8.8:80''), (''status'', JStr ''working''),
       (''response_time'', JFloat (1 / 4)), (''real_ip'', JStr ''1.2.3.4''),
       (''protocol'', JStr ''http'')],
      [(''proxy'', JStr ''1.1.1.1:80''), (''status'', JStr ''failed''),
       (''error'', JStr ''Connection refused'')],
      [(''proxy'', JStr ''208.67.222.222:80''), (''status'', JStr ''failed''),
       (''error'', JStr ''Connection refused'')],
      [(''proxy'', JStr ''208.67.220.220:80''), (''status'', JStr ''failed''),
       (''error'', JStr ''Connection refused'')]]
   \<and> files (snd (finder_main test_lib dead_web test_net tm0 empty_world)) ''working_proxies.json''
       = Some (compact_json
            (JArr [JObj [(''proxy'', JStr ''8.8.8.8:80''), (''status'', JStr ''working''),
                         (''response_time'', JFloat (1 / 4)), (''real_ip'', JStr ''1.2.3.4''),
                         (''protocol'', JStr ''http'')]]))"
  by code_simp

text \<open>
  C8, amended: after the probes have completed, the file-check tool writes every outcome,
  working and failed, in the order of arrival, to \<open><input-basename>_results.json\<close>; the
  aggregation tool writes to \<open>working_proxies.json\<close> the working outcomes only, in the order
  of arrival.
\<close>

theorem json_sinks_hold_all_or_working_outcomes:
  "(\<forall>content. files w filename = Some content \<longrightarrow>
      (\<exists>w'. main lib net done_order [prog, filename] w = (Returned, w')
         \<and> files w' (rsplit_dot_head filename @ ''_results.json'') =
             Some (json_dumps lib
                    (JArr (map JObj (checker_outcomes net done_order (read_proxies content)))))))
   \<and> (\<exists>w'. finder_main lib web fnet tm fw = (Returned, w')
         \<and> files w' ''working_proxies.json'' =
             Some (json_dumps lib
                    (JArr (map JObj (filter is_working (finder_outcomes lib web fnet tm 50))))))"
  using main_results [of w filename _ lib net done_order prog]
    finder_main_results [of lib web fnet tm fw]
  by blast

theorem json_sinks_hold_all_or_working_outcomes_witness:
  "(\<exists>w'. main test_lib test_net [2, 0] [''proxy_checker.py'', ''proxies.txt''] test_world
            = (Returned, w')
        \<and> files w' ''proxies_results.json'' =
            Some (compact_json (JArr (map JObj (checker_outcomes test_net [2, 0]
                    [''1.1.1.1:80'', ''2.2.2.2:8080'', ''1.1.1.1:80''])))))
   \<and> (\<exists>w'. finder_main test_lib dead_web test_net tm0 empty_world = (Returned, w')
        \<and> files w' ''working_proxies.json'' =
            Some (compact_json (JArr (map JObj
                    (filter is_working (finder_outcomes test_lib dead_web test_net tm0 50))))))"
proof -
  have f: "files test_world ''proxies.txt'' = Some proxies_txt"
    by (simp add: test_world_def)
  have o: "rsplit_dot_head ''proxies.txt'' @ ''_results.json'' = ''proxies_results.json''"
    by (simp add: rsplit_dot_head_def)
  have d: "json_dumps test_lib = compact_json"
    by (simp add: test_lib_def)
  note t = json_sinks_hold_all_or_working_outcomes [of test_world "''proxies.txt''" test_lib test_net "[2, 0]" "''proxy_checker.py''"
        dead_web test_net tm0 empty_world]
  note a = t [THEN conjunct1, THEN spec, of proxies_txt, THEN mp, OF f]
  note b = t [THEN conjunct2]
  have a': "\<exists>w'. main test_lib test_net [2, 0] [''proxy_checker.py'', ''proxies.txt''] test_world
            = (Returned, w')
        \<and> files w' ''proxies_results.json'' =
            Some (compact_json (JArr (map JObj (checker_outcomes test_net [2, 0]
                    [''1.1.1.1:80'', ''2.2.2.2:8080'', ''1.1.1.1:80'']))))"
    using a by (simp only: o d read_proxies_txt)
  have b': "\<exists>w'. finder_main test_lib dead_web test_net tm0 empty_world = (Returned, w')
        \<and> files w' ''working_proxies.json'' =
            Some (compact_json (JArr (map JObj
                    (filter is_working (finder_outcomes test_lib dead_web test_net tm0 50)))))"
    using b by (simp only: d)
  from a' b' show ?thesis by (rule conjI)
qed

subsection \<open>The candidates of the aggregation tool\<close>

lemma distinct_test_proxies: "distinct test_proxies"
  by (simp add: test_proxies_def)

lemma unique_proxies_distinct: "distinct (unique_proxies lib web tm m)"
  by (simp add: unique_proxies_def distinct_list_set)

lemma unique_proxies_set:
  "set (unique_proxies lib web tm m) = set (pooled_proxies lib web tm m)"
  by (simp add: unique_proxies_def set_list_set)

lemma proxies_to_test_nonempty_pool:
  "pooled_proxies lib web tm m \<noteq> [] \<Longrightarrow>
   proxies_to_test lib web tm m = unique_proxies lib web tm m"
  using unique_proxies_set [of lib web tm m]
  by (auto simp: proxies_to_test_def Let_def)

lemma proxies_to_test_empty_pool:
  "pooled_proxies lib web tm m = [] \<Longrightarrow> proxies_to_test lib web tm m = test_proxies"
  using unique_proxies_set [of lib web tm m]
  by (auto simp: proxies_to_test_def Let_def)

lemma distinct_proxies_to_test: "distinct (proxies_to_test lib web tm m)"
  by (cases "pooled_proxies lib web tm m = []")
     (simp_all add: proxies_to_test_empty_pool proxies_to_test_nonempty_pool
        distinct_test_proxies unique_proxies_distinct)

lemma pooled_twice:
  "pooled_proxies test_lib twice_web tm1 50 =
     [''1.1.1.1:80'', ''1.1.1.1:80'', ''1.1.1.1:80'', ''1.1.1.1:80'', ''1.1.1.1:80'', ''1.1.1.1:80'']"
  by code_simp

text \<open>
  C6. The candidates that the aggregation tool submits to the probes contain no
  duplicate: every candidate collected from the sources, however many sources returned it
  and however often, is submitted exactly once, and when anything was collected nothing
  else is submitted.
\<close>

theorem candidates_fed_to_runner_are_distinct:
  "distinct (proxies_to_test lib web tm m)
   \<and> (\<forall>c \<in> set (pooled_proxies lib web tm m). count (mset (proxies_to_test lib web tm m)) c = 1)
   \<and> (pooled_proxies lib web tm m \<noteq> [] \<longrightarrow>
        set (proxies_to_test lib web tm m) = set (pooled_proxies lib web tm m))"
proof -
  have d: "distinct (proxies_to_test lib web tm m)"
    by (rule distinct_proxies_to_test)
  have s: "pooled_proxies lib web tm m \<noteq> [] \<longrightarrow>
        set (proxies_to_test lib web tm m) = set (pooled_proxies lib web tm m)"
    by (simp add: proxies_to_test_nonempty_pool unique_proxies_set)
  have "\<forall>c \<in> set (pooled_proxies lib web tm m). count (mset (proxies_to_test lib web tm m)) c = 1"
  proof
    fix c assume c: "c \<in> set (pooled_proxies lib web tm m)"
    then have "pooled_proxies lib web tm m \<noteq> []" by auto
    with s c have "c \<in> set (proxies_to_test lib web tm m)" by simp
    with d show "count (mset (proxies_to_test lib web tm m)) c = 1"
      by (simp add: distinct_count_atmost_1)
  qed
  with d s show ?thesis by blast
qed

theorem candidates_fed_to_runner_are_distinct_witness:
  "pooled_proxies test_lib twice_web tm1 50 =
     [''1.1.1.1:80'', ''1.1.1.1:80'', ''1.1.1.1:80'', ''1.1.1.1:80'', ''1.1.1.1:80'', ''1.1.1.1:80'']
   \<and> distinct (proxies_to_test test_lib twice_web tm1 50)
   \<and> count (mset (proxies_to_test test_lib twice_web tm1 50)) ''1.1.1.1:80'' = 1
   \<and> set (proxies_to_test test_lib twice_web tm1 50) = {''1.1.1.1:80''}"
  using candidates_fed_to_runner_are_distinct [of test_lib twice_web tm1 50]
  by (simp add: pooled_twice)

lemma collect_all_empty:
  "(\<forall>ps \<in> set xss. ps = []) \<Longrightarrow> collect m xss acc = acc"
  by (induction xss arbitrary: acc) simp_all

lemma pooled_empty_when_sources_empty:
  assumes "\<forall>source \<in> set (sources lib). snd (fetch_proxy_list source (web (url source))) = []"
  shows "pooled_proxies lib web tm m = []"
proof -
  have "\<forall>ps \<in> set (as_completed (fetch_done_order tm) (map snd (fetch_all lib web))). ps = []"
    using assms by (auto simp: set_as_completed fetch_all_def)
  then show ?thesis
    by (simp add: pooled_proxies_def collect_all_empty)
qed

lemma finder_outcomes_candidates:
  "mset (map (\<lambda>r. map_of r ''proxy'') (finder_outcomes lib web net tm m))
     = mset (map (\<lambda>p. Some (JStr p)) (proxies_to_test lib web tm m))"
proof -
  let ?ps = "proxies_to_test lib web tm m"
  let ?futures = "map (\<lambda>(i, proxy). finder_check_proxy (round2 lib) proxy (net i proxy))
                    (with_position 0 ?ps)"
  have "map (\<lambda>r. map_of r ''proxy'') ?futures
        = map (\<lambda>p. Some (JStr p)) (map snd (with_position 0 ?ps))"
    by (simp add: finder_check_proxy_proxy case_prod_beta)
  then have futures: "map (\<lambda>r. map_of r ''proxy'') ?futures = map (\<lambda>p. Some (JStr p)) ?ps"
    by (simp only: map_snd_with_position)
  have "mset (map (\<lambda>r. map_of r ''proxy'') (finder_outcomes lib web net tm m))
        = image_mset (\<lambda>r. map_of r ''proxy'') (mset (as_completed (probe_done_order tm) ?futures))"
    by (simp only: finder_outcomes_def mset_map)
  also have "\<dots> = image_mset (\<lambda>r. map_of r ''proxy'') (mset ?futures)"
    by (simp only: mset_as_completed)
  also have "\<dots> = mset (map (\<lambda>r. map_of r ''proxy'') ?futures)"
    by (simp only: mset_map)
  finally show ?thesis by (simp only: futures)
qed

lemma dead_web_sources:
  "\<forall>source \<in> set (sources test_lib). snd (fetch_proxy_list source (dead_web (url source))) = []"
  by (simp add: sources_def fetch_proxy_list_def dead_web_def)

text \<open>
  C9. If every source contributes no candidate, so that the pool collected from the
  sources is empty (as it is when every fetch returns the empty list), the aggregation
  tool does not probe an empty set: it probes the four built-in endpoints \<open>8.8.8.8:80\<close>,
  \<open>1.1.1.1:80\<close>, \<open>208.67.222.222:80\<close> and \<open>208.67.220.220:80\<close> instead.
\<close>

theorem fallback_candidates_when_sources_empty:
  assumes "pooled_proxies lib web tm m = []"
  shows "proxies_to_test lib web tm m =
           [''8.8.8.8:80'', ''1.1.1.1:80'', ''208.67.222.222:80'', ''208.67.220.220:80'']
       \<and> mset (map (\<lambda>r. map_of r ''proxy'') (finder_outcomes lib web net tm m)) =
           {#Some (JStr ''8.8.8.8:80''), Some (JStr ''1.1.1.1:80''),
             Some (JStr ''208.67.222.222:80''), Some (JStr ''208.67.220.220:80'')#}"
proof -
  have p: "proxies_to_test lib web tm m =
           [''8.8.8.8:80'', ''1.1.1.1:80'', ''208.67.222.222:80'', ''208.67.220.220:80'']"
    using proxies_to_test_empty_pool [OF assms]
    by (simp add: test_proxies_def)
  show ?thesis
    using finder_outcomes_candidates [of lib web net tm m]
    by (simp add: p)
qed

theorem fallback_candidates_when_sources_empty_witness:
  "proxies_to_test test_lib dead_web tm0 50 =
     [''8.8.8.8:80'', ''1.1.1.1:80'', ''208.67.222.222:80'', ''208.67.220.220:80'']
   \<and> mset (map (\<lambda>r. map_of r ''proxy'') (finder_outcomes test_lib dead_web test_net tm0 50)) =
           {#Some (JStr ''8.8.8.8:80''), Some (JStr ''1.1.1.1:80''),
             Some (JStr ''208.67.222.222:80''), Some (JStr ''208.67.220.220:80'')#}"
  using fallback_candidates_when_sources_empty
    [OF pooled_empty_when_sources_empty [OF dead_web_sources], where tm = tm0 and m = 50
      and net = test_net]
  by simp

lemma set_concat_take_as_completed:
  "set (concat (map (take n) (as_completed order xss))) = (\<Union>ps \<in> set xss. set (take n ps))"
  by (simp add: set_as_completed)

lemma to_test_long_length: "length (proxies_to_test test_lib long_web tm0 50) = 50"
  by code_simp

lemma to_test_long_51: "''10.0.0.51:80'' \<notin> set (proxies_to_test test_lib long_web tm0 50)"
  by code_simp

lemma fetched_long_51:
  "''10.0.0.51:80'' \<in> set (snd (fetch_proxy_list (sources test_lib ! 3) (long_web (url (sources test_lib ! 3)))))"
  by code_simp

text \<open>
  C10. Each source contributes at most its first \<open>max_proxies_per_source\<close> candidates
  (50 by default) to the pool, and the cut is made per source before duplicates are
  removed: the pool is the concatenation of the cut lists, and what is probed, once the
  pool is not empty, is exactly what occurs among the first \<open>max_proxies_per_source\<close>
  candidates of some source. A candidate past that position is dropped even if no other
  source has it.
\<close>

theorem per_source_truncation_before_dedup:
  assumes "0 \<le> m"
  shows "pooled_proxies lib web tm m =
           concat (map (take (nat m))
                     (as_completed (fetch_done_order tm) (map snd (fetch_all lib web))))
       \<and> (pooled_proxies lib web tm m \<noteq> [] \<longrightarrow>
            set (proxies_to_test lib web tm m) =
              (\<Union>ps \<in> set (map snd (fetch_all lib web)). set (take (nat m) ps)))"
proof -
  have p: "pooled_proxies lib web tm m =
           concat (map (take (nat m))
                     (as_completed (fetch_done_order tm) (map snd (fetch_all lib web))))"
    using assms by (simp add: pooled_proxies_def collect_nonneg)
  have "set (pooled_proxies lib web tm m) =
          (\<Union>ps \<in> set (map snd (fetch_all lib web)). set (take (nat m) ps))"
    unfolding p by (rule set_concat_take_as_completed)
  then show ?thesis
    using p by (simp add: proxies_to_test_nonempty_pool unique_proxies_set)
qed

theorem per_source_truncation_before_dedup_witness:
  "pooled_proxies test_lib long_web tm0 50 =
     concat (map (take 50)
               (as_completed (fetch_done_order tm0) (map snd (fetch_all test_lib long_web))))
   \<and> ''10.0.0.51:80'' \<in> set (snd (fetch_proxy_list (sources test_lib ! 3)
                                       (long_web (url (sources test_lib ! 3)))))
   \<and> ''10.0.0.51:80'' \<notin> set (proxies_to_test test_lib long_web tm0 50)
   \<and> length (proxies_to_test test_lib long_web tm0 50) = 50"
proof -
  have h: "(0::int) \<le> 50" by simp
  have n: "nat 50 = 50" by simp
  note a = per_source_truncation_before_dedup [OF h, of test_lib long_web tm0, THEN conjunct1, unfolded n]
  show ?thesis
    by (rule conjI [OF a conjI [OF fetched_long_51 conjI [OF to_test_long_51 to_test_long_length]]])
qed

end
